theory Spec2Isabelle
  imports Main "HOL-Library.Word"
begin

unbundle bit_operations_syntax

section \<open>btctxstore: the control module\<close>

text \<open>
  A shallow embedding of \<^verbatim>\<open>btctxstore/control.py\<close>: the data-blob codec, the
  broadcast messages, the recoverable signatures and the UTXO allocator.
  Python exceptions are values of the type \<open>error\<close>; a function that can raise
  returns \<open>error + 'a\<close>, with \<open>Inl\<close> for the exception. Python integers are
  \<open>int\<close>; lengths and list indices are \<open>nat\<close>. A leading underscore of a
  Python name is dropped (\<^verbatim>\<open>_outputs\<close> is \<open>outputs\<close>).
\<close>

subsection \<open>Bytes, hexadecimal text and errors\<close>

type_synonym byte = "8 word"

datatype error =
    NoNulldataOutput
  | NoDataBlob
  | MaxDataBlobSizeExceeded nat nat
  | ExistingNulldataOutput
  | NoBroadcastMessage
  | InvalidSignarureParameter
  | InsufficientFunds int int
  | AssertionError
  | ZeroDivisionError
  | IndexError
  | OverflowError
  | HexError
  | ZlibError
  | UnicodeDecodeError
  | BadSignatureError
  | Failure string

definition hexdigits :: string where
  "hexdigits = ''0123456789abcdef''"

definition hexval :: "char \<Rightarrow> nat option" where
  "hexval c =
     (let n = (of_char c :: nat)
      in if 48 \<le> n \<and> n \<le> 57 then Some (n - 48)
         else if 97 \<le> n \<and> n \<le> 102 then Some (n - 87)
         else if 65 \<le> n \<and> n \<le> 70 then Some (n - 55)
         else None)"

definition b2h_byte :: "byte \<Rightarrow> string" where
  "b2h_byte b = [hexdigits ! (unat b div 16), hexdigits ! (unat b mod 16)]"

text \<open>\<^verbatim>\<open>b2h\<close> and \<^verbatim>\<open>h2b\<close> of pycoin: bytes to lower-case hexadecimal text and
  back. \<^verbatim>\<open>h2b\<close> raises on a text of odd length or with another character; here
  that is \<open>None\<close>.\<close>

definition b2h :: "byte list \<Rightarrow> string" where
  "b2h bs = concat (map b2h_byte bs)"

fun h2b :: "string \<Rightarrow> byte list option" where
  "h2b [] = Some []"
| "h2b [c] = None"
| "h2b (c # d # cs) =
     (case hexval c of None \<Rightarrow> None
      | Some hi \<Rightarrow>
        (case hexval d of None \<Rightarrow> None
         | Some lo \<Rightarrow>
           (case h2b cs of None \<Rightarrow> None
            | Some bs \<Rightarrow> Some (word_of_nat (16 * hi + lo) # bs))))"

subsection \<open>Transactions\<close>

text \<open>
  An output is a coin value and a locking script. The code only ever looks at a script
  through \<^verbatim>\<open>tools.disassemble\<close> and only ever builds one from such a text, so the
  field \<open>script\<close> holds the disassembled text of the script: an opcode name or the
  hexadecimal text of a pushed value, separated by single spaces.
\<close>

record txout =
  coin_value :: int
  script :: string

record txin =
  previous_hash :: "byte list"
  previous_index :: nat

record tx =
  version :: nat
  txs_in :: "txin list"
  txs_out :: "txout list"
  lock_time :: nat

subsection \<open>The helpers of the modules common, serialize and deserialize\<close>

definition SIZE_PREFIX_BYTES :: nat where
  "SIZE_PREFIX_BYTES = 2"

text \<open>Modelled from the spec: \<^verbatim>\<open>common.num_to_bytes\<close> is not among the sources. The
  spec gives the size prefix as a big-endian number of \<open>bytes_len\<close> bytes. What the
  function does with a number that does not fit is not given; here that is the error
  \<open>OverflowError\<close>.\<close>

definition num_to_bytes :: "nat \<Rightarrow> nat \<Rightarrow> error + byte list" where
  "num_to_bytes bytes_len num =
     (if num < 256 ^ bytes_len
      then Inr (map (\<lambda>i. word_of_nat (num div 256 ^ (bytes_len - 1 - i))) [0..<bytes_len])
      else Inl OverflowError)"

text \<open>Modelled from the spec: \<^verbatim>\<open>common.num_from_bytes\<close> is not among the sources. It
  reads the bytes as one big-endian number.\<close>

definition num_from_bytes :: "nat \<Rightarrow> byte list \<Rightarrow> nat" where
  "num_from_bytes bytes_len data = foldl (\<lambda>acc b. acc * 256 + unat b) 0 data"

text \<open>Modelled from the spec: \<^verbatim>\<open>common.chunks\<close> is not among the sources. It splits a
  sequence into consecutive pieces of \<open>n\<close> items, the last one possibly shorter. The
  code calls it with the size 20 only; for the size 0 the model returns no piece.\<close>

function chunks :: "'a list \<Rightarrow> nat \<Rightarrow> 'a list list" where
  "chunks items n =
     (if n = 0 \<or> items = [] then []
      else take n items # chunks (drop n items) n)"
  by pat_completeness auto
termination
  by (relation "measure (\<lambda>(items, n). length items)") auto

text \<open>Modelled from the spec: \<^verbatim>\<open>serialize.data\<close> is not among the sources. The code
  pads its result with the character 0 up to 40 characters for 20 bytes and reads it back
  with \<^verbatim>\<open>h2b\<close>: it is the hexadecimal text of the bytes.\<close>

definition serialize_data :: "byte list \<Rightarrow> string" where
  "serialize_data data = b2h data"

text \<open>Modelled from the spec: \<^verbatim>\<open>deserialize.nulldata_txout\<close> is not among the sources.
  It builds the null-data output for the data given as hexadecimal text: the value 0 and
  the script \<^verbatim>\<open>OP_RETURN\<close> followed by the data.\<close>

definition nulldata_txout :: "string \<Rightarrow> txout" where
  "nulldata_txout hexdata = \<lparr>coin_value = 0, script = ''OP_RETURN '' @ hexdata\<rparr>"

text \<open>Modelled from the spec: \<^verbatim>\<open>deserialize.hash160data_txout\<close> is not among the
  sources. It builds a standard pay-to-hash output whose 20-byte hash field holds the
  data, with the dust limit as its value.\<close>

definition hash160data_txout :: "string \<Rightarrow> int \<Rightarrow> txout" where
  "hash160data_txout hexdata dust_limit =
     \<lparr>coin_value = dust_limit,
      script = ''OP_DUP OP_HASH160 '' @ hexdata @ '' OP_EQUALVERIFY OP_CHECKSIG''\<rparr>"

subsection \<open>The data-blob codec\<close>

text \<open>\<^verbatim>\<open>re.match("^OP_RETURN", tools.disassemble(out.script))\<close>\<close>

definition is_nulldata :: "txout \<Rightarrow> bool" where
  "is_nulldata out = (take 9 (script out) = ''OP_RETURN'')"

text \<open>\<^verbatim>\<open>_get_nulldata_output\<close>: the first output that matches, with its index;
  \<open>None\<close> for the pair \<^verbatim>\<open>(None, None)\<close>.\<close>

definition get_nulldata_output :: "tx \<Rightarrow> (nat \<times> txout) option" where
  "get_nulldata_output t =
     List.find (\<lambda>(index, out). is_nulldata out) (enumerate 0 (txs_out t))"

definition add_nulldata_output :: "tx \<Rightarrow> txout \<Rightarrow> error + tx" where
  "add_nulldata_output t nulldata_out =
     (case get_nulldata_output t of
        Some found \<Rightarrow> Inl ExistingNulldataOutput
      | None \<Rightarrow> Inr (t\<lparr>txs_out := txs_out t @ [nulldata_out]\<rparr>))"

definition add_hash160data_output :: "tx \<Rightarrow> txout \<Rightarrow> tx" where
  "add_hash160data_output t hash160data_out = t\<lparr>txs_out := txs_out t @ [hash160data_out]\<rparr>"

text \<open>\<^verbatim>\<open>h2b(tools.disassemble(out.script)[18:58])\<close>; an index past the outputs raises
  \<^verbatim>\<open>IndexError\<close>.\<close>

definition get_hash160_data :: "tx \<Rightarrow> nat \<Rightarrow> error + byte list" where
  "get_hash160_data t output_index =
     (if output_index < length (txs_out t)
      then (case h2b (take 40 (drop 18 (script (txs_out t ! output_index)))) of
              None \<Rightarrow> Inl HexError
            | Some data \<Rightarrow> Inr data)
      else Inl IndexError)"

definition get_nulldata :: "tx \<Rightarrow> error + nat \<times> byte list" where
  "get_nulldata t =
     (case get_nulldata_output t of
        None \<Rightarrow> Inl NoNulldataOutput
      | Some (index, out) \<Rightarrow>
          (case h2b (drop 10 (script out)) of
             None \<Rightarrow> Inl HexError
           | Some data \<Rightarrow> Inr (index, data)))"

text \<open>The loop of \<^verbatim>\<open>get_data_blob\<close> over \<^verbatim>\<open>range(required_hash160_outputs)\<close>.\<close>

fun get_data_blob_loop :: "tx \<Rightarrow> nat \<Rightarrow> nat list \<Rightarrow> byte list \<Rightarrow> error + byte list" where
  "get_data_blob_loop t nulldata_index [] data = Inr data"
| "get_data_blob_loop t nulldata_index (index # rest) data =
     (case get_hash160_data t (index + nulldata_index + 1) of
        Inl e \<Rightarrow> Inl e
      | Inr hash160data \<Rightarrow> get_data_blob_loop t nulldata_index rest (data @ hash160data))"

text \<open>\<^verbatim>\<open>get_data_blob\<close>. The number of outputs needed is
  \<^verbatim>\<open>int(math.ceil(required_bytes / 20.0))\<close>; \<open>required_bytes\<close> is below \<open>2 ^ 16\<close>,
  where the floating-point quotient is exact enough for the ceiling to be the integer
  \<open>(required_bytes + 19) div 20\<close>.\<close>

definition get_data_blob :: "tx \<Rightarrow> error + byte list" where
  "get_data_blob t =
     (case get_nulldata t of
        Inl NoNulldataOutput \<Rightarrow> Inl NoDataBlob
      | Inl e \<Rightarrow> Inl e
      | Inr (nulldata_index, nulldata) \<Rightarrow>
          if length nulldata < SIZE_PREFIX_BYTES then Inl NoDataBlob
          else
            let sz = num_from_bytes SIZE_PREFIX_BYTES (take SIZE_PREFIX_BYTES nulldata);
                data = drop SIZE_PREFIX_BYTES nulldata
            in if sz < length data then Inl NoDataBlob
               else if sz = length data then Inr data
               else
                 let required_bytes = sz - length data;
                     required_hash160_outputs = (required_bytes + 19) div 20
                 in if required_hash160_outputs + nulldata_index + 1 > length (txs_out t)
                    then Inl NoDataBlob
                    else (case get_data_blob_loop t nulldata_index
                                 [0..<required_hash160_outputs] data of
                            Inl e \<Rightarrow> Inl e
                          | Inr all_data \<Rightarrow> Inr (take sz all_data)))"

text \<open>The body of the loop of \<^verbatim>\<open>add_data_blob\<close> over the chunks.\<close>

definition add_chunk :: "int \<Rightarrow> tx \<Rightarrow> byte list \<Rightarrow> tx" where
  "add_chunk dust_limit t hash160data =
     (let hexdata = serialize_data hash160data;
          hexdata = (if length hexdata < 40
                     then hexdata @ replicate (40 - length hexdata) (CHR ''0'')
                     else hexdata)
      in add_hash160data_output t (hash160data_txout hexdata dust_limit))"

text \<open>\<^verbatim>\<open>add_data_blob\<close>. The constant \<^verbatim>\<open>common.MAX_NULLDATA\<close> is not among the
  sources and is the first argument.\<close>

definition add_data_blob :: "nat \<Rightarrow> tx \<Rightarrow> byte list \<Rightarrow> int \<Rightarrow> error + tx" where
  "add_data_blob MAX_NULLDATA t data dust_limit =
     (let max_data_size = 2 ^ (SIZE_PREFIX_BYTES * 8)
      in if length data > max_data_size
         then Inl (MaxDataBlobSizeExceeded max_data_size (length data))
         else
           (case num_to_bytes SIZE_PREFIX_BYTES (length data) of
              Inl e \<Rightarrow> Inl e
            | Inr size_prefix \<Rightarrow>
                let data = size_prefix @ data
                in if length data \<le> MAX_NULLDATA
                   then add_nulldata_output t (nulldata_txout (serialize_data data))
                   else
                     (case add_nulldata_output t
                             (nulldata_txout (serialize_data (take MAX_NULLDATA data))) of
                        Inl e \<Rightarrow> Inl e
                      | Inr t' \<Rightarrow>
                          Inr (foldl (add_chunk dust_limit) t'
                                 (chunks (drop MAX_NULLDATA data) 20)))))"

text \<open>The output that \<open>add_chunk\<close> appends for one chunk.\<close>

definition chunk_out :: "int \<Rightarrow> byte list \<Rightarrow> txout" where
  "chunk_out dust_limit c =
     hash160data_txout
       (if length (serialize_data c) < 40
        then serialize_data c @ replicate (40 - length (serialize_data c)) (CHR ''0'')
        else serialize_data c) dust_limit"

text \<open>A transaction without inputs and outputs.\<close>

definition empty_tx :: tx where
  "empty_tx = \<lparr>version = 1, txs_in = [], txs_out = [], lock_time = 0\<rparr>"

subsection \<open>The libraries the signature engine and the messages call\<close>

text \<open>
  The functions of ecdsa, pycoin, zlib and of the modules \<^verbatim>\<open>util\<close> and \<^verbatim>\<open>modsqrt\<close>
  are not among the sources. Those the code calls are the fields of a record that every
  function below takes as its first argument \<open>L\<close>; a call that can raise returns
  \<open>error + 'a\<close>. \<open>'pt\<close> is the type of curve points, \<open>'vk\<close> that of verifying keys.
\<close>

record ('pt, 'vk) library =
  generator_secp256k1 :: 'pt
  generator_order :: int
  curve_a :: int
  curve_b :: int
  curve_p :: int
  sigdecode_string :: "byte list \<Rightarrow> int \<Rightarrow> error + int \<times> int"
  modular_sqrt :: "int \<Rightarrow> int \<Rightarrow> int"
  Point :: "int \<Rightarrow> int \<Rightarrow> int \<Rightarrow> error + 'pt"
  inverse_mod :: "int \<Rightarrow> int \<Rightarrow> error + int"
  point_mul :: "int \<Rightarrow> 'pt \<Rightarrow> error + 'pt"
  point_add :: "'pt \<Rightarrow> 'pt \<Rightarrow> error + 'pt"
  point_x :: "'pt \<Rightarrow> int"
  point_y :: "'pt \<Rightarrow> int"
  from_public_point :: "'pt \<Rightarrow> error + 'vk"
  verify_digest :: "'vk \<Rightarrow> byte list \<Rightarrow> byte list \<Rightarrow> error + bool"
  sign_digest_deterministic :: "int \<Rightarrow> byte list \<Rightarrow> error + byte list"
  double_sha256 :: "byte list \<Rightarrow> byte list"
  stream_bc_int :: "nat \<Rightarrow> byte list"
  public_pair_to_hash160_sec :: "int \<times> int \<Rightarrow> bool \<Rightarrow> byte list"
  hash160_sec_to_bitcoin_address :: "byte list \<Rightarrow> byte list \<Rightarrow> string"
  bitcoin_address_to_hash160_sec :: "string \<Rightarrow> byte list \<Rightarrow> error + byte list"
  zlib_compress :: "byte list \<Rightarrow> byte list"
  zlib_decompress :: "byte list \<Rightarrow> byte list option"
  utf8_encode :: "string \<Rightarrow> byte list"
  utf8_decode :: "byte list \<Rightarrow> string option"
  standard_tx_out_script :: "bool \<Rightarrow> string \<Rightarrow> string"
  tx_hash_of :: "tx \<Rightarrow> byte list"

text \<open>A private-key handle: what \<^verbatim>\<open>key.secret_exponent()\<close> and \<^verbatim>\<open>key.address()\<close>
  return.\<close>

record key =
  secret_exponent :: int
  address :: string

text \<open>Sequencing of calls that can raise: the first exception ends the computation.\<close>

definition bind_error :: "error + 'a \<Rightarrow> ('a \<Rightarrow> error + 'b) \<Rightarrow> error + 'b" where
  "bind_error m f = (case m of Inl e \<Rightarrow> Inl e | Inr x \<Rightarrow> f x)"

text \<open>Modelled from the spec: \<^verbatim>\<open>util.bytestoint\<close> is not among the sources. It reads
  the digest as a big-endian integer.\<close>

definition bytestoint :: "byte list \<Rightarrow> int" where
  "bytestoint data = foldl (\<lambda>acc b. acc * 256 + uint b) 0 data"

subsection \<open>The recoverable signatures\<close>

definition address_prefix :: "bool \<Rightarrow> byte list" where
  "address_prefix testnet = (if testnet then [0x6f] else [0])"

definition address_to_hash160 :: "('pt, 'vk) library \<Rightarrow> bool \<Rightarrow> string \<Rightarrow> error + byte list" where
  "address_to_hash160 L testnet addr =
     bitcoin_address_to_hash160_sec L addr (address_prefix testnet)"

definition hash160_to_address :: "('pt, 'vk) library \<Rightarrow> bool \<Rightarrow> byte list \<Rightarrow> string" where
  "hash160_to_address L testnet hash160 =
     hash160_sec_to_bitcoin_address L hash160 (address_prefix testnet)"

definition public_pair_to_address ::
  "('pt, 'vk) library \<Rightarrow> bool \<Rightarrow> int \<times> int \<Rightarrow> bool \<Rightarrow> string" where
  "public_pair_to_address L testnet public_pair compressed =
     hash160_to_address L testnet (public_pair_to_hash160_sec L public_pair compressed)"

definition encode_varint :: "('pt, 'vk) library \<Rightarrow> nat \<Rightarrow> byte list" where
  "encode_varint L v = stream_bc_int L v"

text \<open>The prefix is the byte 0x18 and the 24 characters
  \<^verbatim>\<open>Bitcoin Signed Message:\n\<close>.\<close>

definition bitcoin_message_hash :: "('pt, 'vk) library \<Rightarrow> byte list \<Rightarrow> byte list" where
  "bitcoin_message_hash L data =
     (let prefix = 0x18 # map (\<lambda>c. word_of_nat (of_char c))
                              (''Bitcoin Signed Message:'' @ [CHR 0x0A]);
          varint = encode_varint L (length data)
      in double_sha256 L (prefix @ varint @ data))"

text \<open>\<^verbatim>\<open>_add_recovery_params\<close>. \<^verbatim>\<open>struct.pack(">B", params)\<close> is the one byte
  \<open>params\<close>, which is between 27 and 34 for the recovery parameters 0 to 3 that
  \<^verbatim>\<open>sign_data\<close> passes.\<close>

definition add_recovery_params :: "nat \<Rightarrow> bool \<Rightarrow> byte list \<Rightarrow> byte list" where
  "add_recovery_params i compressed sigdata =
     (let params = 27;
          params = params + i;
          params = params + (if compressed then 4 else 0)
      in word_of_nat params # sigdata)"

text \<open>\<^verbatim>\<open>_recover_public_key\<close>, SEC 1 section 4.1.6.\<close>

definition recover_public_key ::
  "('pt, 'vk) library \<Rightarrow> 'pt \<Rightarrow> int \<Rightarrow> int \<Rightarrow> int \<Rightarrow> int \<Rightarrow> int \<Rightarrow> error + 'pt" where
  "recover_public_key L G order r s i e =
     (let x = r + (i div 2) * order;
          alpha = (x * x * x + curve_a L * x + curve_b L) mod curve_p L;
          beta = modular_sqrt L alpha (curve_p L);
          y = (if (beta - i) mod 2 = 0 then beta else curve_p L - beta)
      in bind_error (Point L x y order) (\<lambda>R.
         bind_error (inverse_mod L r order) (\<lambda>rInv.
         let eNeg = (- e) mod order
         in bind_error (point_mul L s R) (\<lambda>sR.
            bind_error (point_mul L eNeg G) (\<lambda>eG.
            bind_error (point_add L sR eG) (\<lambda>sum.
            point_mul L rInv sum))))))"

text \<open>\<^verbatim>\<open>_parse_signature\<close>. \<^verbatim>\<open>six.indexbytes(sig, 0)\<close> raises \<^verbatim>\<open>IndexError\<close> on
  an empty signature. The bitwise operations are Python's on unbounded integers.\<close>

definition parse_signature ::
  "('pt, 'vk) library \<Rightarrow> byte list \<Rightarrow> int
     \<Rightarrow> error + byte list \<times> int \<times> int \<times> int \<times> bool" where
  "parse_signature L sig order =
     (let rsdata = drop 1 sig
      in bind_error (sigdecode_string L rsdata order) (\<lambda>(r, s).
         case sig of
           [] \<Rightarrow> Inl IndexError
         | b # rest \<Rightarrow>
             let params = uint b - 27
             in if params \<noteq> (params AND 7) then Inl InvalidSignarureParameter
                else let compressed = ((params AND 4) \<noteq> 0);
                         i = params AND 3
                     in Inr (rsdata, r, s, i, compressed)))"

text \<open>The body of the \<^verbatim>\<open>try\<close> block of \<^verbatim>\<open>verify_signature\<close>.\<close>

definition verify_signature_body ::
  "('pt, 'vk) library \<Rightarrow> bool \<Rightarrow> string \<Rightarrow> byte list \<Rightarrow> byte list \<Rightarrow> error + bool" where
  "verify_signature_body L testnet addr sig data =
     (let G = generator_secp256k1 L;
          order = generator_order L
      in bind_error (parse_signature L sig order) (\<lambda>(rsdata, r, s, i, compressed).
         let digest = bitcoin_message_hash L data;
             e = bytestoint digest
         in bind_error (recover_public_key L G order r s i e) (\<lambda>Q.
            bind_error (from_public_point L Q) (\<lambda>pub.
            bind_error (verify_digest L pub rsdata digest) (\<lambda>ignored.
            let public_pair = (point_x L Q, point_y L Q);
                recoveredaddress = public_pair_to_address L testnet public_pair compressed
            in Inr (addr = recoveredaddress))))))"

text \<open>\<^verbatim>\<open>verify_signature\<close>: the two \<^verbatim>\<open>except\<close> clauses catch \<^verbatim>\<open>AssertionError\<close>
  and \<^verbatim>\<open>InvalidSignarureParameter\<close>; every other exception leaves the function.\<close>

definition verify_signature ::
  "('pt, 'vk) library \<Rightarrow> bool \<Rightarrow> string \<Rightarrow> byte list \<Rightarrow> byte list \<Rightarrow> error + bool" where
  "verify_signature L testnet addr sig data =
     (case verify_signature_body L testnet addr sig data of
        Inl AssertionError \<Rightarrow> Inr False
      | Inl InvalidSignarureParameter \<Rightarrow> Inr False
      | Inl e \<Rightarrow> Inl e
      | Inr result \<Rightarrow> Inr result)"

text \<open>The two nested loops of \<^verbatim>\<open>sign_data\<close>, over the candidates in their order.\<close>

definition recovery_candidates :: "(nat \<times> bool) list" where
  "recovery_candidates = concat (map (\<lambda>i. map (\<lambda>compressed. (i, compressed)) [True, False]) [0..<4])"

fun sign_data_loop ::
  "('pt, 'vk) library \<Rightarrow> bool \<Rightarrow> string \<Rightarrow> byte list \<Rightarrow> byte list
     \<Rightarrow> (nat \<times> bool) list \<Rightarrow> error + byte list" where
  "sign_data_loop L testnet addr data sigdata [] = Inl (Failure ''Failed to serialize signature!'')"
| "sign_data_loop L testnet addr data sigdata ((i, compressed) # rest) =
     (let sig = add_recovery_params i compressed sigdata
      in case verify_signature L testnet addr sig data of
           Inl e \<Rightarrow> Inl e
         | Inr True \<Rightarrow> Inr sig
         | Inr False \<Rightarrow> sign_data_loop L testnet addr data sigdata rest)"

definition sign_data ::
  "('pt, 'vk) library \<Rightarrow> bool \<Rightarrow> byte list \<Rightarrow> key \<Rightarrow> error + byte list" where
  "sign_data L testnet data k =
     (let addr = address k;
          digest = bitcoin_message_hash L data;
          secretexponent = secret_exponent k
      in bind_error (sign_digest_deterministic L secretexponent digest) (\<lambda>sigdata.
         sign_data_loop L testnet addr data sigdata recovery_candidates))"

subsection \<open>The broadcast messages\<close>

definition add_broadcast_message ::
  "('pt, 'vk) library \<Rightarrow> nat \<Rightarrow> bool \<Rightarrow> tx \<Rightarrow> string \<Rightarrow> key \<Rightarrow> int \<Rightarrow> error + tx" where
  "add_broadcast_message L MAX_NULLDATA testnet t message sender_key dust_limit =
     (let msg_data = utf8_encode L message
      in bind_error (sign_data L testnet msg_data sender_key) (\<lambda>signature.
         bind_error (address_to_hash160 L testnet (address sender_key)) (\<lambda>hash160.
         let msg_data = zlib_compress L msg_data;
             data = signature;
             data = data @ replicate 13 0;
             data = data @ hash160;
             data = data @ msg_data
         in add_data_blob MAX_NULLDATA t data dust_limit)))"

record broadcast_message =
  bm_address :: string
  bm_message :: string
  bm_signature :: "byte list"

definition get_broadcast_message ::
  "('pt, 'vk) library \<Rightarrow> bool \<Rightarrow> tx \<Rightarrow> error + broadcast_message" where
  "get_broadcast_message L testnet t =
     (case get_data_blob t of
        Inl NoDataBlob \<Rightarrow> Inl NoBroadcastMessage
      | Inl e \<Rightarrow> Inl e
      | Inr data \<Rightarrow>
          let min_data = 65 + 13 + 20 + 0
          in if length data < min_data then Inl NoBroadcastMessage
             else
               let signature = take 65 data;
                   data = drop 65 data;
                   data = drop 13 data;
                   addr = hash160_to_address L testnet (take 20 data);
                   msg_data = drop 20 data
               in (case zlib_decompress L msg_data of
                     None \<Rightarrow> Inl ZlibError
                   | Some msg_data \<Rightarrow>
                       bind_error (verify_signature L testnet addr signature msg_data) (\<lambda>valid.
                       if \<not> valid then Inl NoBroadcastMessage
                       else (case utf8_decode L msg_data of
                               None \<Rightarrow> Inl UnicodeDecodeError
                             | Some text \<Rightarrow>
                                 Inr \<lparr>bm_address = addr, bm_message = text,
                                      bm_signature = signature\<rparr>))))"

section \<open>Properties of the data-blob codec\<close>

lemma hexval_hexdigits: "n < 16 \<Longrightarrow> hexval (hexdigits ! n) = Some n"
proof -
  assume "n < 16"
  have "list_all (\<lambda>n. hexval (hexdigits ! n) = Some n) [0..<16]"
    by code_simp
  with \<open>n < 16\<close> show ?thesis
    by (simp add: list_all_iff)
qed

lemma h2b_b2h_byte:
  "h2b (b2h_byte b @ cs) = (case h2b cs of None \<Rightarrow> None | Some bs \<Rightarrow> Some (b # bs))"
proof -
  have hi: "unat b div 16 < 16" using unsigned_less [of b, where ?'a = nat] by simp
  have lo: "unat b mod 16 < 16" by simp
  have eq: "(word_of_nat (16 * (unat b div 16) + unat b mod 16) :: byte) = b"
    by simp
  have "h2b (b2h_byte b @ cs) =
          (case h2b cs of None \<Rightarrow> None
           | Some bs \<Rightarrow> Some (word_of_nat (16 * (unat b div 16) + unat b mod 16) # bs))"
    unfolding b2h_byte_def
    by (simp only: append_Cons append_Nil h2b.simps hexval_hexdigits [OF hi]
          hexval_hexdigits [OF lo] option.case)
  then show ?thesis
    by (simp only: eq)
qed

lemma h2b_b2h_append:
  "h2b (b2h bs @ cs) = (case h2b cs of None \<Rightarrow> None | Some bs' \<Rightarrow> Some (bs @ bs'))"
  by (induction bs) (auto simp: b2h_def h2b_b2h_byte split: option.splits)

lemma h2b_b2h: "h2b (b2h bs) = Some bs"
  using h2b_b2h_append [of bs "[]"] by simp

lemma length_b2h: "length (b2h bs) = 2 * length bs"
  by (induction bs) (auto simp: b2h_def b2h_byte_def)

lemma h2b_zeros: "h2b (replicate (2 * m) (CHR ''0'')) = Some (replicate m 0)"
  by (induction m) (auto simp: hexval_def)

lemma h2b_b2h_padded:
  "h2b (b2h bs @ replicate (2 * m) (CHR ''0'')) = Some (bs @ replicate m 0)"
  by (simp add: h2b_b2h_append h2b_zeros)

lemma num_to_bytes_2:
  "n < 65536 \<Longrightarrow> num_to_bytes 2 n = Inr [word_of_nat (n div 256), word_of_nat n]"
  by (simp add: num_to_bytes_def upt_rec numeral_2_eq_2)

lemma num_from_bytes_2:
  assumes "n < 65536"
  shows "num_from_bytes 2 [word_of_nat (n div 256), word_of_nat n :: byte] = n"
proof -
  have "n div 256 < 256" using assms by simp
  then have "unat (word_of_nat (n div 256) :: byte) = n div 256"
    by (simp add: unat_of_nat)
  moreover have "unat (word_of_nat n :: byte) = n mod 256"
    by (simp add: unat_of_nat)
  ultimately show ?thesis
    by (simp add: num_from_bytes_def)
qed


lemma find_enumerate_first:
  assumes "\<forall>x \<in> set xs. \<not> P x" "P y"
  shows "List.find (\<lambda>(index, out). P out) (enumerate k (xs @ y # ys)) = Some (k + length xs, y)"
  using assms by (induction xs arbitrary: k) auto

lemma find_enumerate_None:
  "List.find (\<lambda>(index, out). P out) (enumerate k xs) = None \<longleftrightarrow> (\<forall>x \<in> set xs. \<not> P x)"
  by (induction xs arbitrary: k) auto

lemma get_nulldata_output_None:
  "get_nulldata_output t = None \<longleftrightarrow> (\<forall>out \<in> set (txs_out t). \<not> is_nulldata out)"
  by (simp add: get_nulldata_output_def find_enumerate_None)

lemma is_nulldata_nulldata_txout: "is_nulldata (nulldata_txout hexdata)"
  by (simp add: is_nulldata_def nulldata_txout_def)

lemma not_is_nulldata_hash160data_txout: "\<not> is_nulldata (hash160data_txout hexdata dust_limit)"
  by (simp add: is_nulldata_def hash160data_txout_def)

lemma txs_out_foldl_add_chunk:
  "txs_out (foldl (add_chunk dust_limit) t cs) = txs_out t @ map (chunk_out dust_limit) cs"
  by (induction cs arbitrary: t)
     (auto simp: add_chunk_def add_hash160data_output_def chunk_out_def Let_def)

lemma get_data_blob_loop_all:
  assumes "\<forall>i \<in> set is. get_hash160_data t (i + nulldata_index + 1) = Inr (g i)"
  shows "get_data_blob_loop t nulldata_index is data = Inr (data @ concat (map g is))"
  using assms by (induction "is" arbitrary: data) auto

lemma h2b_chunk_out:
  assumes "length c \<le> 20"
  shows "h2b (take 40 (drop 18 (script (chunk_out dust_limit c))))
           = Some (c @ replicate (20 - length c) 0)"
proof -
  have len: "length (serialize_data c) = 2 * length c"
    by (simp add: serialize_data_def length_b2h)
  show ?thesis
  proof (cases "length c < 20")
    case True
    then have "take 40 (drop 18 (script (chunk_out dust_limit c)))
                 = b2h c @ replicate (2 * (20 - length c)) (CHR ''0'')"
      by (simp add: chunk_out_def hash160data_txout_def len length_b2h serialize_data_def
                    diff_mult_distrib2)
    then show ?thesis by (simp add: h2b_b2h_padded)
  next
    case False
    with assms have l: "length c = 20" by simp
    then have "take 40 (drop 18 (script (chunk_out dust_limit c))) = b2h c"
      by (simp add: chunk_out_def hash160data_txout_def len length_b2h serialize_data_def)
    then show ?thesis using l by (simp add: h2b_b2h)
  qed
qed

declare chunks.simps [simp del]

lemma chunks_Nil: "chunks [] n = []"
  by (simp add: chunks.simps)

lemma chunks_step:
  "0 < n \<Longrightarrow> xs \<noteq> [] \<Longrightarrow> chunks xs n = take n xs # chunks (drop n xs) n"
  by (subst chunks.simps) simp

lemma chunks_short:
  "0 < n \<Longrightarrow> xs \<noteq> [] \<Longrightarrow> length xs \<le> n \<Longrightarrow> chunks xs n = [xs]"
  by (simp add: chunks_step chunks_Nil)

lemma length_chunks_le: "c \<in> set (chunks xs n) \<Longrightarrow> length c \<le> n"
proof (induction xs n rule: chunks.induct)
  case (1 items n)
  show ?case
  proof (cases "n = 0 \<or> items = []")
    case True
    then have "chunks items n = []" by (subst chunks.simps) simp
    with 1 show ?thesis by simp
  next
    case False
    then have "chunks items n = take n items # chunks (drop n items) n"
      by (simp add: chunks_step)
    with 1 False show ?thesis by auto
  qed
qed

lemma length_chunks: "0 < n \<Longrightarrow> length (chunks xs n) = (length xs + n - 1) div n"
proof (induction xs n rule: chunks.induct)
  case (1 items n)
  show ?case
  proof (cases "items = []")
    case True
    then show ?thesis using 1 by (simp add: chunks_Nil)
  next
    case False
    then have step: "chunks items n = take n items # chunks (drop n items) n"
      using 1 by (simp add: chunks_step)
    have ih: "length (chunks (drop n items) n) = (length (drop n items) + n - 1) div n"
      using 1 False by simp
    show ?thesis
    proof (cases "length items \<le> n")
      case True
      have pos: "0 < length items" using False by simp
      have lo: "n * 1 \<le> length items + n - 1" using pos by arith
      have hi: "length items + n - 1 < n * Suc 1" using True pos by arith
      have "(length items + n - 1) div n = 1"
        by (rule div_nat_eqI [OF lo hi])
      with step True show ?thesis by (simp add: chunks_Nil)
    next
      case gt: False
      define m where "m = length items - n"
      have len: "length items = m + n" using gt by (simp add: m_def)
      have e: "m + n + n - 1 = (m + n - 1) + n" using \<open>0 < n\<close> by arith
      have "(m + n - 1 + n) div n = (m + n - 1) div n + 1"
        using \<open>0 < n\<close> by (intro div_add_self2) simp
      then have d: "(length items + n - 1) div n = Suc ((length (drop n items) + n - 1) div n)"
        by (simp only: len e length_drop add_diff_cancel_right' Suc_eq_plus1)
      show ?thesis by (simp only: step list.size(4) ih d Suc_eq_plus1)
    qed
  qed
qed

lemma concat_padded_chunks:
  "0 < n \<Longrightarrow> \<exists>zs. concat (map (\<lambda>c. c @ replicate (n - length c) z) (chunks xs n)) = xs @ zs"
proof (induction xs n rule: chunks.induct)
  case (1 items n)
  show ?case
  proof (cases "items = []")
    case True
    then show ?thesis by (simp add: chunks_Nil)
  next
    case False
    then have step: "chunks items n = take n items # chunks (drop n items) n"
      using 1 by (simp add: chunks_step)
    from 1 False obtain zs where
      ih: "concat (map (\<lambda>c. c @ replicate (n - length c) z) (chunks (drop n items) n))
             = drop n items @ zs"
      by auto
    show ?thesis
    proof (cases "length items < n")
      case True
      then show ?thesis using step by (simp add: chunks_Nil)
    next
      case ge: False
      then have "concat (map (\<lambda>c. c @ replicate (n - length c) z) (chunks items n))
                   = take n items @ drop n items @ zs"
        using step ih by simp
      then have "concat (map (\<lambda>c. c @ replicate (n - length c) z) (chunks items n))
                   = items @ zs"
        by (simp only: append_assoc [symmetric] append_take_drop_id)
      then show ?thesis by blast
    qed
  qed
qed


lemma map_nth_upt: "map (\<lambda>i. f (xs ! i)) [0..<length xs] = map f xs"
  by (rule nth_equalityI) auto

lemma get_nulldata_encoded:
  assumes "\<forall>out \<in> set outs. \<not> is_nulldata out"
    and "txs_out t = outs @ nulldata_txout (serialize_data nulldata) # more_outs"
  shows "get_nulldata t = Inr (length outs, nulldata)"
proof -
  have "get_nulldata_output t = Some (length outs, nulldata_txout (serialize_data nulldata))"
    unfolding get_nulldata_output_def assms(2)
    using find_enumerate_first [of outs is_nulldata "nulldata_txout (serialize_data nulldata)" 0 more_outs]
          assms(1) is_nulldata_nulldata_txout
    by simp
  moreover have "h2b (drop 10 (script (nulldata_txout (serialize_data nulldata)))) = Some nulldata"
    by (simp add: nulldata_txout_def serialize_data_def h2b_b2h)
  ultimately show ?thesis
    by (simp add: get_nulldata_def)
qed

lemma get_hash160_data_encoded:
  assumes "txs_out t = outs @ nd # map (chunk_out dust_limit) cs"
    and "i < length cs" and "length (cs ! i) \<le> 20"
  shows "get_hash160_data t (i + length outs + 1)
           = Inr (cs ! i @ replicate (20 - length (cs ! i)) 0)"
proof -
  have "txs_out t ! (i + length outs + 1) = chunk_out dust_limit (cs ! i)"
    using assms(2) by (simp add: assms(1) nth_append)
  moreover have "i + length outs + 1 < length (txs_out t)"
    using assms(2) by (simp add: assms(1))
  ultimately show ?thesis
    using h2b_chunk_out [OF assms(3), of dust_limit]
    by (simp add: get_hash160_data_def)
qed


lemma get_data_blob_encoded:
  assumes outs: "\<forall>out \<in> set outs. \<not> is_nulldata out"
    and n: "length payload < 65536"
    and prefix: "size_prefix = [word_of_nat (length payload div 256), word_of_nat (length payload)]"
    and shape: "txs_out t = outs @ nulldata_txout (serialize_data (size_prefix @ d0))
                  # map (chunk_out dust_limit) (chunks rest 20)"
    and split: "payload = d0 @ rest"
  shows "get_data_blob t = Inr payload"
proof -
  let ?cs = "chunks rest 20"
  define nulldata where "nulldata = size_prefix @ d0"
  have nd: "get_nulldata t = Inr (length outs, nulldata)"
    unfolding nulldata_def using get_nulldata_encoded [OF outs shape] .
  have sz: "num_from_bytes SIZE_PREFIX_BYTES (take SIZE_PREFIX_BYTES nulldata) = length payload"
    using num_from_bytes_2 [OF n] by (simp add: nulldata_def prefix SIZE_PREFIX_BYTES_def)
  have data: "drop SIZE_PREFIX_BYTES nulldata = d0"
    by (simp add: nulldata_def prefix SIZE_PREFIX_BYTES_def)
  have len2: "\<not> length nulldata < SIZE_PREFIX_BYTES"
    by (simp add: nulldata_def prefix SIZE_PREFIX_BYTES_def)
  show ?thesis
  proof (cases "rest = []")
    case True
    then have "length payload = length d0" using split by simp
    then show ?thesis
      using True split
      by (simp add: get_data_blob_def nd sz data len2 Let_def)
  next
    case False
    have lp: "length payload = length d0 + length rest" using split by simp
    have gt: "length d0 < length payload" using False lp by simp
    have req: "length payload - length d0 = length rest" using lp by simp
    have k: "(length rest + 19) div 20 = length ?cs"
      using length_chunks [of 20 rest] by simp
    have each: "\<forall>i \<in> set [0..<length ?cs].
                  get_hash160_data t (i + length outs + 1)
                    = Inr (?cs ! i @ replicate (20 - length (?cs ! i)) 0)"
    proof
      fix i assume "i \<in> set [0..<length ?cs]"
      then have i: "i < length ?cs" by simp
      then have "length (?cs ! i) \<le> 20"
        using length_chunks_le [of "?cs ! i" rest 20] by simp
      then show "get_hash160_data t (i + length outs + 1)
                   = Inr (?cs ! i @ replicate (20 - length (?cs ! i)) 0)"
        using get_hash160_data_encoded [OF shape i] by simp
    qed
    have loop: "get_data_blob_loop t (length outs) [0..<length ?cs] d0
                  = Inr (d0 @ concat (map (\<lambda>c. c @ replicate (20 - length c) 0) ?cs))"
      using get_data_blob_loop_all [OF each, of d0]
      by (simp only: map_nth_upt [of "\<lambda>c. c @ replicate (20 - length c) 0" ?cs])
    obtain zs where zs: "concat (map (\<lambda>c. c @ replicate (20 - length c) (0::byte)) ?cs) = rest @ zs"
      using concat_padded_chunks [of 20 "0::byte" rest] by auto
    have final: "take (length payload) (d0 @ rest @ zs) = payload"
      using split by simp
    have bound: "\<not> length ?cs + length outs + 1 > length (txs_out t)"
      by (simp add: shape)
    show ?thesis
      unfolding get_data_blob_def nd
      using gt req k loop zs final bound len2
      by (simp add: sz data Let_def)
  qed
qed


lemma add_nulldata_output_fresh:
  "get_nulldata_output t = None \<Longrightarrow>
     add_nulldata_output t out = Inr (t\<lparr>txs_out := txs_out t @ [out]\<rparr>)"
  by (simp add: add_nulldata_output_def)

lemma add_data_blob_result:
  assumes n: "length payload < 65536"
    and none: "get_nulldata_output t = None"
    and prefix: "size_prefix = [word_of_nat (length payload div 256), word_of_nat (length payload)]"
  shows "add_data_blob MAX_NULLDATA t payload dust_limit =
           Inr (if length (size_prefix @ payload) \<le> MAX_NULLDATA
                then t\<lparr>txs_out := txs_out t @ [nulldata_txout (serialize_data (size_prefix @ payload))]\<rparr>
                else foldl (add_chunk dust_limit)
                       (t\<lparr>txs_out := txs_out t
                            @ [nulldata_txout (serialize_data (take MAX_NULLDATA (size_prefix @ payload)))]\<rparr>)
                       (chunks (drop MAX_NULLDATA (size_prefix @ payload)) 20))"
proof -
  have nb: "num_to_bytes SIZE_PREFIX_BYTES (length payload) = Inr size_prefix"
    using num_to_bytes_2 [OF n] by (simp add: SIZE_PREFIX_BYTES_def prefix)
  have small: "\<not> length payload > 2 ^ (SIZE_PREFIX_BYTES * 8)"
    using n by (simp add: SIZE_PREFIX_BYTES_def)
  define framed where "framed = size_prefix @ payload"
  show ?thesis
    unfolding add_data_blob_def Let_def
    using small
    by (simp only: nb if_False sum.case add_nulldata_output_fresh [OF none] framed_def [symmetric]
          split: if_splits) simp
qed

text \<open>
  Claim C1. A payload of at most 65535 bytes that \<open>add_data_blob\<close> encodes into a
  transaction without a null-data output is what \<open>get_data_blob\<close> decodes from the
  result, whatever the dust limit: the zero bytes that pad the last 20-byte chunk are cut
  off at the declared size. The capacity \<open>MAX_NULLDATA\<close> of the null-data output has
  to hold the two bytes of the size prefix.
\<close>

theorem add_data_blob_get_data_blob:
  assumes len: "length payload \<le> 65535"
    and none: "get_nulldata_output t = None"
    and max: "2 \<le> MAX_NULLDATA"
  shows "\<exists>t'. add_data_blob MAX_NULLDATA t payload dust_limit = Inr t'
               \<and> get_data_blob t' = Inr payload"
proof -
  define size_prefix :: "byte list"
    where "size_prefix = [word_of_nat (length payload div 256), word_of_nat (length payload)]"
  have n: "length payload < 65536" using len by simp
  have outs: "\<forall>out \<in> set (txs_out t). \<not> is_nulldata out"
    using none by (simp add: get_nulldata_output_None)
  note res = add_data_blob_result [OF n none size_prefix_def, of MAX_NULLDATA dust_limit]
  show ?thesis
  proof (cases "length (size_prefix @ payload) \<le> MAX_NULLDATA")
    case True
    let ?t' = "t\<lparr>txs_out := txs_out t @ [nulldata_txout (serialize_data (size_prefix @ payload))]\<rparr>"
    have "txs_out ?t' = txs_out t @ nulldata_txout (serialize_data (size_prefix @ payload))
            # map (chunk_out dust_limit) (chunks [] 20)"
      by (simp add: chunks_Nil)
    then have "get_data_blob ?t' = Inr payload"
      using get_data_blob_encoded [OF outs n size_prefix_def, of ?t' payload dust_limit "[]"]
      by simp
    then show ?thesis using res True by simp
  next
    case False
    let ?d0 = "take (MAX_NULLDATA - 2) payload"
    let ?rest = "drop (MAX_NULLDATA - 2) payload"
    let ?t' = "foldl (add_chunk dust_limit)
                 (t\<lparr>txs_out := txs_out t
                      @ [nulldata_txout (serialize_data (take MAX_NULLDATA (size_prefix @ payload)))]\<rparr>)
                 (chunks (drop MAX_NULLDATA (size_prefix @ payload)) 20)"
    obtain m where m: "MAX_NULLDATA = Suc (Suc m)"
      using max by (metis add_2_eq_Suc le_Suc_ex)
    have tk: "take MAX_NULLDATA (size_prefix @ payload) = size_prefix @ ?d0"
      by (simp add: size_prefix_def m)
    have dr: "drop MAX_NULLDATA (size_prefix @ payload) = ?rest"
      by (simp add: size_prefix_def m)
    have "txs_out ?t' = txs_out t @ nulldata_txout (serialize_data (size_prefix @ ?d0))
            # map (chunk_out dust_limit) (chunks ?rest 20)"
      by (simp only: txs_out_foldl_add_chunk tk dr) simp
    then have "get_data_blob ?t' = Inr payload"
      using get_data_blob_encoded [OF outs n size_prefix_def, of ?t' ?d0 dust_limit ?rest]
      by simp
    then show ?thesis using res False by simp
  qed
qed

theorem add_data_blob_get_data_blob_witness:
  "length [1, 2, 3, 4, 5 :: byte] \<le> 65535 \<and> get_nulldata_output empty_tx = None \<and> (2::nat) \<le> 4
     \<and> (\<exists>t'. add_data_blob 4 empty_tx [1, 2, 3, 4, 5] 548 = Inr t'
              \<and> get_data_blob t' = Inr [1, 2, 3, 4, 5])"
proof -
  have a: "length [1, 2, 3, 4, 5 :: byte] \<le> 65535" by simp
  have b: "get_nulldata_output empty_tx = None"
    by (simp add: get_nulldata_output_def empty_tx_def)
  have c: "(2::nat) \<le> 4" by simp
  show ?thesis
    using a b c add_data_blob_get_data_blob [OF a b c, of 548] by simp
qed

end
